theory Spec2Isabelle
  imports Main
begin

section \<open>The messaging client of netsapiens\_asyncio (messages.py)\<close>

text \<open>
  The module holds one class, \<open>MessageAPI\<close>, with two coroutines: \<open>send_message\<close>
  (one POST) and \<open>get_messages\<close> (one GET). Both first ask the authentication
  collaborator for token data, build a URL and a body or a query, issue the request and
  branch on the status of the response.

  Python strings are modelled as \<open>string\<close>, Python's unbounded integers as \<open>int\<close>, a
  dictionary as an association list in insertion order, \<open>Optional[t]\<close> as \<open>t option\<close>.
  Every call that leaves the client (the credential check, the HTTP request) is appended
  to a trace, so that a statement about which calls were made is a statement about that
  trace. Calls to the logger change neither the result nor the requests and are left out.
\<close>

subsection \<open>Exceptions\<close>

text \<open>
  The exceptions that can leave the two coroutines. \<open>ValueError\<close> and the plain
  \<open>Exception\<close> (with its message and its \<open>__cause__\<close>) are raised by the module itself;
  \<open>KeyError\<close> by the subscript \<open>auth_data['access_token']\<close>; \<open>ClientError\<close> stands for
  any instance of \<open>aiohttp.ClientError\<close> (its subclasses included) and \<open>OtherError\<close> for
  an instance of any other subclass of \<open>Exception\<close> raised by a collaborator (for example
  \<open>asyncio.TimeoutError\<close>, or a JSON decoding error).
\<close>

datatype exn =
    ValueError string
  | KeyError string
  | ClientError string
  | OtherError string
  | Exception string "exn option"

text \<open>\<open>isinstance(e, aiohttp.ClientError)\<close>, the test of the first \<open>except\<close> clause.\<close>

fun is_ClientError :: "exn \<Rightarrow> bool" where
  "is_ClientError (ClientError m) = True"
| "is_ClientError e = False"

subsection \<open>Python primitives used by the module\<close>

text \<open>Truthiness of an \<open>Optional[str]\<close>: \<open>None\<close> and the empty string are falsy. (An
  \<open>Optional[int]\<close> is falsy when it is \<open>None\<close> or zero; the tests on \<open>size\<close> and
  \<open>limit\<close> are written out where they occur.)\<close>

fun truthy_str :: "string option \<Rightarrow> bool" where
  "truthy_str None = False"
| "truthy_str (Some s) = (s \<noteq> [])"

text \<open>\<open>str(n)\<close> for an integer: decimal digits, most significant first, with a leading
  minus sign for a negative number.\<close>

definition digit_char :: "nat \<Rightarrow> char" where
  "digit_char d = ''0123456789'' ! (d mod 10)"

fun str_nat :: "nat \<Rightarrow> string" where
  "str_nat n = (if n < 10 then [digit_char n] else str_nat (n div 10) @ [digit_char (n mod 10)])"

declare str_nat.simps [simp del]

definition str_int :: "int \<Rightarrow> string" where
  "str_int i = (if i < 0 then CHR ''-'' # str_nat (nat (- i)) else str_nat (nat i))"

text \<open>An \<open>Optional[str]\<close> inside an f-string: \<open>None\<close> is rendered as the text \<open>None\<close>.\<close>

fun format_opt :: "string option \<Rightarrow> string" where
  "format_opt None = ''None''"
| "format_opt (Some s) = s"

text \<open>
  \<open>re.match(r"^[a-zA-Z0-9_]{32,}$", s)\<close>. The character class is the ASCII letters, the
  digits and the underscore (no character beyond the 8-bit range of \<open>char\<close> is in it).
  The pattern is compiled without flags, so Python's \<open>$\<close> matches at the very end of the
  string and also just before a newline that is the last character: the subject is a run
  of at least 32 class characters, optionally followed by one final newline.
\<close>

definition is_session_char :: "char \<Rightarrow> bool" where
  "is_session_char c =
     (let n = (of_char c :: nat)
      in (97 \<le> n \<and> n \<le> 122) \<or> (65 \<le> n \<and> n \<le> 90) \<or> (48 \<le> n \<and> n \<le> 57) \<or> n = 95)"

definition re_match_session :: "string \<Rightarrow> bool" where
  "re_match_session s =
     (let body = (if s \<noteq> [] \<and> last s = CHR 0x0A then butlast s else s)
      in 32 \<le> length body \<and> list_all is_session_char body)"

subsection \<open>Data\<close>

text \<open>Token data is the dictionary returned by the authentication collaborator, with the
  keys \<open>access_token\<close> and \<open>api_url\<close>.\<close>

type_synonym token_data = "(string \<times> string) list"

text \<open>The attributes of a \<open>MessageAPI\<close> object that the two coroutines read or assign.\<close>

record MessageAPI =
  auth_data :: "token_data option"
  base_url :: "string option"
  domain :: string
  user :: string

text \<open>\<open>__init__\<close>: \<open>token_data\<close> is the collaborator's cached token data, possibly
  \<open>None\<close>; an empty dictionary is falsy.\<close>

definition init :: "token_data option \<Rightarrow> MessageAPI" where
  "init token_data =
     \<lparr> auth_data = token_data,
       base_url = (case token_data of
                     None \<Rightarrow> None
                   | Some d \<Rightarrow> if d \<noteq> [] then map_of d ''api_url'' else None),
       domain = ''~'',
       user = ''~'' \<rparr>"

text \<open>The \<open>destination\<close> argument is a string or a list (of strings).\<close>

datatype destination = Single string | Many "string list"

text \<open>The values of the JSON body: strings, and the array of destinations.\<close>

datatype jvalue = JStr string | JArr "string list"

text \<open>A request as handed to the HTTP session: the method, the URL, the headers, and the
  JSON body (POST) or the query parameters (GET).\<close>

datatype request =
    Post string "(string \<times> string) list" "(string \<times> jvalue) list"
  | Get string "(string \<times> string) list" "(string \<times> string) list"

text \<open>The calls that leave the client, in the order they are made.\<close>

datatype call = CheckTokenExpiry | Http request

text \<open>What the code reads of a response: \<open>response.status\<close>, and the outcomes of
  \<open>await response.json()\<close> and \<open>await response.text()\<close>, each of which may raise. The
  JSON document is opaque to the client, hence the type parameter.\<close>

record 'j response =
  status :: int
  json_result :: "exn + 'j"
  text_result :: "exn + string"

text \<open>
  The collaborators, as parameters of the model. The authentication component
  (\<open>NetsapiensAPI\<close>, imported from \<open>auth\<close>) is external to \<open>messages.py\<close>:
  \<open>check_token_expiry\<close> is what a call \<open>await self.auth_client.check_token_expiry()\<close>
  does, raise or return token data.
  \<open>http\<close> is what the aiohttp session does with a request: raise (a transport-level
  failure) or give a response.
\<close>

record 'j world =
  check_token_expiry :: "exn + token_data"
  http :: "request \<Rightarrow> exn + 'j response"

text \<open>The result of a call of a coroutine: what it returned or raised, the object
  afterwards, and the calls it made.\<close>

type_synonym 'j result = "(exn + 'j) \<times> MessageAPI \<times> call list"

definition outcome :: "'j result \<Rightarrow> exn + 'j" where
  "outcome r = fst r"

definition calls :: "'j result \<Rightarrow> call list" where
  "calls r = snd (snd r)"

subsection \<open>send\_message\<close>

definition invalid_session_message :: string where
  "invalid_session_message =
     ''Invalid messagesession ID. Must be at least 32 characters long, alphanumeric, and underscores only.''"

text \<open>Lines 66 to 77: the validation of \<open>messagesession\<close> and the choice of the URL.\<close>

definition send_message_url :: "MessageAPI \<Rightarrow> string option \<Rightarrow> exn + string" where
  "send_message_url self messagesession =
     (case messagesession of
        Some s \<Rightarrow>
          if s \<noteq> [] then
            (if \<not> re_match_session s then Inl (ValueError invalid_session_message)
             else Inr (format_opt (base_url self) @ ''/ns-api/v2/domains/'' @ domain self
                       @ ''/users/'' @ user self @ ''/messagesessions/'' @ s @ ''/messages''))
          else Inr (format_opt (base_url self) @ ''/ns-api/v2/domains/'' @ domain self
                    @ ''/users/'' @ user self @ ''/messages'')
      | None \<Rightarrow> Inr (format_opt (base_url self) @ ''/ns-api/v2/domains/'' @ domain self
                    @ ''/users/'' @ user self @ ''/messages''))"

text \<open>Lines 80 to 95: the payload, in the order the keys are inserted.\<close>

definition send_message_payload ::
  "string \<Rightarrow> string \<Rightarrow> destination \<Rightarrow> string \<Rightarrow> string option \<Rightarrow> string option \<Rightarrow> int option
     \<Rightarrow> (string \<times> jvalue) list" where
  "send_message_payload message_type message destination from_number data mime_type size' =
     [(''type'', JStr message_type),
      (''message'', JStr message),
      (''destination'', (case destination of Many xs \<Rightarrow> JArr xs | Single s \<Rightarrow> JArr [s])),
      (''from-number'', JStr from_number)]
     @ (case data of Some d \<Rightarrow> if d \<noteq> [] then [(''data'', JStr d)] else [] | None \<Rightarrow> [])
     @ (case mime_type of Some m \<Rightarrow> if m \<noteq> [] then [(''mime-type'', JStr m)] else [] | None \<Rightarrow> [])
     @ (case size' of Some n \<Rightarrow> if n \<noteq> 0 then [(''size'', JStr (str_int n))] else [] | None \<Rightarrow> [])"

text \<open>The header dictionary; the subscript raises \<open>KeyError\<close> when the key is missing.\<close>

definition bearer_headers :: "token_data \<Rightarrow> exn + (string \<times> string) list" where
  "bearer_headers tok =
     (case map_of tok ''access_token'' of
        None \<Rightarrow> Inl (KeyError ''access_token'')
      | Some t \<Rightarrow> Inr [(''Authorization'', ''Bearer '' @ t)])"

text \<open>Lines 103 to 110: the branch on the status, in \<open>send_message\<close>.\<close>

definition send_message_response :: "'j response \<Rightarrow> exn + 'j" where
  "send_message_response r =
     (if status r = 200 then json_result r
      else (case text_result r of
              Inl e \<Rightarrow> Inl e
            | Inr error_message \<Rightarrow> Inl (Exception (''Failed to send message: '' @ error_message) None)))"

text \<open>The coroutine. Nothing in it catches an exception, so each one propagates as it
  is.\<close>

definition send_message ::
  "'j world \<Rightarrow> MessageAPI \<Rightarrow> string \<Rightarrow> string \<Rightarrow> destination \<Rightarrow> string \<Rightarrow> string option
     \<Rightarrow> string option \<Rightarrow> string option \<Rightarrow> int option \<Rightarrow> 'j result" where
  "send_message w self message_type message destination from_number messagesession data
      mime_type size' =
     (case check_token_expiry w of
        Inl e \<Rightarrow> (Inl e, self, [CheckTokenExpiry])
      | Inr tok \<Rightarrow>
          (let self1 = self\<lparr> auth_data := Some tok, base_url := map_of tok ''api_url'' \<rparr>
           in case send_message_url self1 messagesession of
                Inl e \<Rightarrow> (Inl e, self1, [CheckTokenExpiry])
              | Inr url \<Rightarrow>
                  (let payload = send_message_payload message_type message destination
                                   from_number data mime_type size'
                   in case bearer_headers tok of
                        Inl e \<Rightarrow> (Inl e, self1, [CheckTokenExpiry])
                      | Inr headers \<Rightarrow>
                          (case http w (Post url headers payload) of
                             Inl e \<Rightarrow>
                               (Inl e, self1, [CheckTokenExpiry, Http (Post url headers payload)])
                           | Inr r \<Rightarrow>
                               (send_message_response r, self1,
                                [CheckTokenExpiry, Http (Post url headers payload)])))))"

subsection \<open>get\_messages\<close>

text \<open>Lines 132 to 141: the choice of the URL; \<open>user or '~'\<close> is the user when truthy.\<close>

definition get_messages_url ::
  "MessageAPI \<Rightarrow> string option \<Rightarrow> string \<Rightarrow> string option \<Rightarrow> string" where
  "get_messages_url self messagesession domain' user' =
     (if truthy_str messagesession then
        format_opt (base_url self) @ ''/ns-api/v2/domains/'' @ domain' @ ''/users/''
        @ (if truthy_str user' then format_opt user' else ''~'')
        @ ''/messagesessions/'' @ format_opt messagesession @ ''/messages''
      else if truthy_str user' then
        format_opt (base_url self) @ ''/ns-api/v2/domains/'' @ domain' @ ''/users/''
        @ format_opt user' @ ''/messagesessions''
      else
        format_opt (base_url self) @ ''/ns-api/v2/domains/'' @ domain' @ ''/messagesessions'')"

text \<open>Lines 144 to 146: the query parameters.\<close>

definition get_messages_params :: "int option \<Rightarrow> (string \<times> string) list" where
  "get_messages_params limit =
     (case limit of Some n \<Rightarrow> if n \<noteq> 0 then [(''limit'', str_int n)] else [] | None \<Rightarrow> [])"

text \<open>Lines 155 to 167: the branch on the status, inside the \<open>try\<close> block.\<close>

definition get_messages_response :: "'j response \<Rightarrow> exn + 'j" where
  "get_messages_response r =
     (if status r = 200 then json_result r
      else (case text_result r of
              Inl e \<Rightarrow> Inl e
            | Inr error_message \<Rightarrow>
                Inl (Exception (''Failed to retrieve messages. Status: '' @ str_int (status r)
                                @ '', Error: '' @ error_message) None)))"

text \<open>Lines 168 to 173: the two \<open>except\<close> clauses, tried in order. Every exception of the
  model is an instance of \<open>Exception\<close>, so the second clause catches what the first does
  not; each raises a new exception \<open>from e\<close>.\<close>

definition except_clauses :: "exn \<Rightarrow> exn" where
  "except_clauses e =
     (if is_ClientError e
      then Exception ''Network error occurred while retrieving messages.'' (Some e)
      else Exception ''An unexpected error occurred.'' (Some e))"

text \<open>Lines 151 to 167: the \<open>try\<close> block, with the calls it makes.\<close>

definition get_messages_try ::
  "'j world \<Rightarrow> token_data \<Rightarrow> string \<Rightarrow> (string \<times> string) list \<Rightarrow> (exn + 'j) \<times> call list" where
  "get_messages_try w tok url params =
     (case bearer_headers tok of
        Inl e \<Rightarrow> (Inl e, [])
      | Inr headers \<Rightarrow>
          (case http w (Get url headers params) of
             Inl e \<Rightarrow> (Inl e, [Http (Get url headers params)])
           | Inr r \<Rightarrow> (get_messages_response r, [Http (Get url headers params)])))"

text \<open>The coroutine. The credential check is outside the \<open>try\<close> block.\<close>

definition get_messages ::
  "'j world \<Rightarrow> MessageAPI \<Rightarrow> string option \<Rightarrow> string \<Rightarrow> string option \<Rightarrow> int option
     \<Rightarrow> 'j result" where
  "get_messages w self messagesession domain' user' limit =
     (case check_token_expiry w of
        Inl e \<Rightarrow> (Inl e, self, [CheckTokenExpiry])
      | Inr tok \<Rightarrow>
          (let self1 = self\<lparr> auth_data := Some tok, base_url := map_of tok ''api_url'' \<rparr>;
               url = get_messages_url self1 messagesession domain' user';
               params = get_messages_params limit
           in case get_messages_try w tok url params of
                (Inl e, cs) \<Rightarrow> (Inl (except_clauses e), self1, CheckTokenExpiry # cs)
              | (Inr result, cs) \<Rightarrow> (Inr result, self1, CheckTokenExpiry # cs)))"

subsection \<open>Defaults and concrete collaborators\<close>

text \<open>The default value of the parameter \<open>domain\<close> of \<open>get_messages\<close> (line 115); the
  other optional parameters of both coroutines default to \<open>None\<close>.\<close>

definition get_messages_default_domain :: string where
  "get_messages_default_domain = ''~''"

text \<open>Concrete collaborators for the examples: token data, a server that answers every
  request with status 200, one that answers with status 403 and the body \<open>forbidden\<close>, and
  a transport that raises on every request.\<close>

definition example_token :: token_data where
  "example_token = [(''access_token'', ''T0K3N''), (''api_url'', ''https://api.example.com'')]"

definition ok_response :: "string response" where
  "ok_response = \<lparr> status = 200, json_result = Inr ''{}'', text_result = Inr ''{}'' \<rparr>"

definition forbidden_response :: "string response" where
  "forbidden_response =
     \<lparr> status = 403, json_result = Inl (OtherError ''JSONDecodeError''),
       text_result = Inr ''forbidden'' \<rparr>"

definition responding :: "'j response \<Rightarrow> 'j world" where
  "responding r = \<lparr> check_token_expiry = Inr example_token, http = (\<lambda>req. Inr r) \<rparr>"

definition failing :: "exn \<Rightarrow> string world" where
  "failing e = \<lparr> check_token_expiry = Inr example_token, http = (\<lambda>req. Inl e) \<rparr>"

text \<open>The number that a string of decimal digits denotes, to say what \<open>str\<close> of an
  integer is a conversion of.\<close>

definition digit_value :: "char \<Rightarrow> nat" where
  "digit_value c = of_char c - 48"

definition decimal_value :: "string \<Rightarrow> nat" where
  "decimal_value s = foldl (\<lambda>a c. 10 * a + digit_value c) 0 s"

section \<open>Properties\<close>

lemmas example_defs = example_token_def ok_response_def forbidden_response_def responding_def
  failing_def init_def get_messages_default_domain_def

lemmas send_defs = send_message_def send_message_url_def send_message_payload_def
  bearer_headers_def send_message_response_def outcome_def calls_def

lemmas get_defs = get_messages_def get_messages_url_def get_messages_params_def
  bearer_headers_def get_messages_response_def get_messages_try_def except_clauses_def
  outcome_def calls_def

subsection \<open>The primitives\<close>


lemma re_match_session_short: "length s < 32 \<Longrightarrow> \<not> re_match_session s"
  by (auto simp: re_match_session_def Let_def)



lemma replicate_40_x: "replicate 40 CHR ''x'' = ''xxxxxxxxxxxxxxxxxxxxxxxxxxxxxxxxxxxxxxxx''"
  by (simp add: eval_nat_numeral)

text \<open>The match, said with the pattern's own parts: a run of at least 32 characters of
  the class, alone or followed by one newline. So a value that ends in a newline can
  match, and then goes into the URL with it.\<close>

lemma newline_not_session_char: "\<not> is_session_char (CHR 0x0A)"
  by (simp add: is_session_char_def)

lemma re_match_session_iff:
  "re_match_session s \<longleftrightarrow>
     (\<exists>p. (s = p \<or> s = p @ [CHR 0x0A]) \<and> 32 \<le> length p \<and> list_all is_session_char p)"
proof
  assume m: "re_match_session s"
  show "\<exists>p. (s = p \<or> s = p @ [CHR 0x0A]) \<and> 32 \<le> length p \<and> list_all is_session_char p"
  proof (cases "s \<noteq> [] \<and> last s = CHR 0x0A")
    case True
    then have "s = butlast s @ [CHR 0x0A]"
      by (metis append_butlast_last_id)
    moreover from m True have "32 \<le> length (butlast s) \<and> list_all is_session_char (butlast s)"
      by (simp add: re_match_session_def)
    ultimately show ?thesis by blast
  next
    case False
    with m have "32 \<le> length s \<and> list_all is_session_char s"
      by (auto simp: re_match_session_def)
    then show ?thesis by blast
  qed
next
  assume "\<exists>p. (s = p \<or> s = p @ [CHR 0x0A]) \<and> 32 \<le> length p \<and> list_all is_session_char p"
  then obtain p where p: "s = p \<or> s = p @ [CHR 0x0A]" "32 \<le> length p"
      "list_all is_session_char p"
    by blast
  from p(1) show "re_match_session s"
  proof
    assume s: "s = p"
    from p(2) have "p \<noteq> []" by auto
    then have "last p \<in> set p" by simp
    with p(3) have "is_session_char (last p)" by (simp add: list_all_iff)
    then have "last p \<noteq> CHR 0x0A" using newline_not_session_char by auto
    with s p show ?thesis by (simp add: re_match_session_def)
  next
    assume "s = p @ [CHR 0x0A]"
    with p show ?thesis by (simp add: re_match_session_def)
  qed
qed

lemma re_match_session_final_newline: "re_match_session (replicate 32 CHR ''a'' @ [CHR 0x0A])"
  by (simp add: re_match_session_def is_session_char_def list_all_iff)

text \<open>\<open>str\<close> of a natural number is its decimal numeral: reading the digits back gives the
  number.\<close>

lemma digit_value_digit_char: "d < 10 \<Longrightarrow> digit_value (digit_char d) = d"
proof -
  assume "d < 10"
  then have "d \<in> {0, 1, 2, 3, 4, 5, 6, 7, 8, 9}" by auto
  then show ?thesis
    by (auto simp: digit_value_def digit_char_def)
qed

lemma decimal_value_str_nat: "decimal_value (str_nat n) = n"
proof (induction n rule: str_nat.induct)
  case (1 n)
  show ?case
  proof (cases "n < 10")
    case True
    then show ?thesis
      by (simp add: str_nat.simps [of n] decimal_value_def digit_value_digit_char)
  next
    case False
    with 1 have "decimal_value (str_nat (n div 10)) = n div 10" by simp
    with False show ?thesis
      by (simp add: str_nat.simps [of n] decimal_value_def digit_value_digit_char)
  qed
qed

lemma decimal_value_str_int: "0 \<le> i \<Longrightarrow> int (decimal_value (str_int i)) = i"
  by (simp add: str_int_def decimal_value_str_nat)

lemma str_int_negative: "i < 0 \<Longrightarrow> str_int i = CHR ''-'' # str_int (- i)"
  by (simp add: str_int_def)

subsection \<open>The requests a call makes\<close>

text \<open>A POST in the trace of \<open>send_message\<close> is the one request the coroutine builds: the
  credential check returned, the URL passed the validation, the token had its key.\<close>

lemma send_message_post:
  assumes "Http (Post url headers payload)
      \<in> set (calls (send_message w self message_type message dest from_number messagesession
                      data mime_type size'))"
  shows "\<exists>tok. check_token_expiry w = Inr tok
           \<and> send_message_url (self\<lparr> auth_data := Some tok, base_url := map_of tok ''api_url'' \<rparr>)
               messagesession = Inr url
           \<and> bearer_headers tok = Inr headers
           \<and> payload = send_message_payload message_type message dest from_number data
               mime_type size'"
  using assms
  by (auto simp: send_message_def calls_def Let_def split: sum.splits)

lemma get_messages_get:
  assumes "Http (Get url headers params)
      \<in> set (calls (get_messages w self messagesession domain' user' limit))"
  shows "\<exists>tok. check_token_expiry w = Inr tok
           \<and> url = get_messages_url
               (self\<lparr> auth_data := Some tok, base_url := map_of tok ''api_url'' \<rparr>)
               messagesession domain' user'
           \<and> bearer_headers tok = Inr headers
           \<and> params = get_messages_params limit"
  using assms
  by (auto simp: get_messages_def get_messages_try_def calls_def Let_def
      split: sum.splits prod.splits)

subsection \<open>Validation of the session identifier in send\_message\<close>

text \<open>
  Claim C1 says that for every \<open>session_id\<close> that does not match the pattern, the empty
  string included, \<open>send_message\<close> fails with the invalid-argument error and makes no
  call at all, neither a credential refresh nor an HTTP request. It fails on the code
  twice. With the empty string the call does not fail: the guard \<open>if messagesession:\<close>
  takes it for an absent argument, and the message is posted. With \<open>bad-id\<close> the call
  does fail, but the credential check of line 63 has been made before the validation.
\<close>

theorem send_message_validation_counterexample:
  "\<not> re_match_session ''''
   \<and> outcome (send_message (responding ok_response) (init None) ''sms'' ''hi''
        (Single ''15551230000'') ''15559990000'' (Some '''') None None None) = Inr ''{}''
   \<and> \<not> re_match_session ''bad-id''
   \<and> calls (send_message (responding ok_response) (init None) ''sms'' ''hi''
        (Single ''15551230000'') ''15559990000'' (Some ''bad-id'') None None None)
       = [CheckTokenExpiry]"
  by (simp add: example_defs send_defs re_match_session_def)

text \<open>
  Claim C1, amended: for every non-empty \<open>session_id\<close> that does not match the pattern,
  \<open>send_message\<close> makes exactly one call, the credential check, and no HTTP request; when
  that check returns, the call fails with \<open>ValueError\<close> (the invalid-argument error), and
  when the check itself raises, that exception is the failure.
\<close>

theorem send_message_rejects_invalid_session:
  assumes "s \<noteq> []" and "\<not> re_match_session s"
  shows "calls (send_message w self message_type message dest from_number (Some s) data
            mime_type size') = [CheckTokenExpiry]
         \<and> outcome (send_message w self message_type message dest from_number (Some s) data
            mime_type size')
           = (case check_token_expiry w of
                Inl e \<Rightarrow> Inl e
              | Inr tok \<Rightarrow> Inl (ValueError invalid_session_message))"
  using assms
  by (simp add: send_message_def send_message_url_def calls_def outcome_def Let_def
      split: sum.splits)

text \<open>The amended claim at a string of 31 letters, one short of the pattern.\<close>

theorem send_message_rejects_invalid_session_witness:
  "replicate 31 CHR ''a'' \<noteq> [] \<and> \<not> re_match_session (replicate 31 CHR ''a'')
   \<and> calls (send_message (responding ok_response) (init None) ''sms'' ''hi''
        (Single ''15551230000'') ''15559990000'' (Some (replicate 31 CHR ''a'')) None None None)
       = [CheckTokenExpiry]
   \<and> outcome (send_message (responding ok_response) (init None) ''sms'' ''hi''
        (Single ''15551230000'') ''15559990000'' (Some (replicate 31 CHR ''a'')) None None None)
       = Inl (ValueError invalid_session_message)"
proof -
  have ne: "replicate 31 CHR ''a'' \<noteq> []" by simp
  have bad: "\<not> re_match_session (replicate 31 CHR ''a'')"
    by (rule re_match_session_short) simp
  show ?thesis
    using ne bad
      send_message_rejects_invalid_session [OF ne bad, of "responding ok_response" "init None"
        "''sms''" "''hi''" "Single ''15551230000''" "''15559990000''" None None None]
    by (simp add: responding_def)
qed

text \<open>
  Claim C10: when \<open>send_message\<close> is called with the empty string as \<open>messagesession\<close>,
  the truthiness guard treats it as absent. The call is the same as the call with
  \<open>None\<close>, in what it returns or raises, in the object afterwards and in the calls it
  makes; and when the credential check returns token data holding an access token, the
  request is posted (so no validation error stopped it) to the path of a new session,
  \<open>.../users/{user}/messages\<close>.
\<close>

theorem send_message_empty_session_as_none:
  "send_message w self message_type message dest from_number (Some []) data mime_type size'
     = send_message w self message_type message dest from_number None data mime_type size'
   \<and> (check_token_expiry w = Inr tok \<and> map_of tok ''access_token'' = Some t \<longrightarrow>
        calls (send_message w self message_type message dest from_number (Some []) data
                 mime_type size')
        = [CheckTokenExpiry,
           Http (Post (format_opt (map_of tok ''api_url'') @ ''/ns-api/v2/domains/''
                       @ domain self @ ''/users/'' @ user self @ ''/messages'')
                   [(''Authorization'', ''Bearer '' @ t)]
                   (send_message_payload message_type message dest from_number data
                      mime_type size'))])"
  by (simp add: send_message_def send_message_url_def bearer_headers_def calls_def Let_def
      split: sum.splits)

theorem send_message_empty_session_as_none_witness:
  "send_message (responding ok_response) (init None) ''sms'' ''hi'' (Single ''15551230000'')
       ''15559990000'' (Some []) None None None
     = send_message (responding ok_response) (init None) ''sms'' ''hi'' (Single ''15551230000'')
       ''15559990000'' None None None None
   \<and> calls (send_message (responding ok_response) (init None) ''sms'' ''hi''
        (Single ''15551230000'') ''15559990000'' (Some []) None None None)
     = [CheckTokenExpiry,
        Http (Post ''https://api.example.com/ns-api/v2/domains/~/users/~/messages''
               [(''Authorization'', ''Bearer T0K3N'')]
               [(''type'', JStr ''sms''), (''message'', JStr ''hi''),
                (''destination'', JArr [''15551230000'']),
                (''from-number'', JStr ''15559990000'')])]"
proof -
  have auth: "check_token_expiry (responding ok_response) = Inr example_token"
    by (simp add: responding_def)
  have token: "map_of example_token ''access_token'' = Some ''T0K3N''"
    by (simp add: example_token_def)
  note t = send_message_empty_session_as_none [of "responding ok_response" "init None" "''sms''"
        "''hi''" "Single ''15551230000''" "''15559990000''" None None None example_token "''T0K3N''"]
  have same: "send_message (responding ok_response) (init None) ''sms'' ''hi''
       (Single ''15551230000'') ''15559990000'' (Some []) None None None
     = send_message (responding ok_response) (init None) ''sms'' ''hi'' (Single ''15551230000'')
       ''15559990000'' None None None None"
    by (rule conjunct1 [OF t])
  have "calls (send_message (responding ok_response) (init None) ''sms'' ''hi''
        (Single ''15551230000'') ''15559990000'' (Some []) None None None)
     = [CheckTokenExpiry,
        Http (Post (format_opt (map_of example_token ''api_url'') @ ''/ns-api/v2/domains/''
                    @ domain (init None) @ ''/users/'' @ user (init None) @ ''/messages'')
                [(''Authorization'', ''Bearer '' @ ''T0K3N'')]
                (send_message_payload ''sms'' ''hi'' (Single ''15551230000'') ''15559990000''
                   None None None))]"
    using conjunct2 [OF t] auth token by blast
  then have target: "calls (send_message (responding ok_response) (init None) ''sms'' ''hi''
        (Single ''15551230000'') ''15559990000'' (Some []) None None None)
     = [CheckTokenExpiry,
        Http (Post ''https://api.example.com/ns-api/v2/domains/~/users/~/messages''
               [(''Authorization'', ''Bearer T0K3N'')]
               [(''type'', JStr ''sms''), (''message'', JStr ''hi''),
                (''destination'', JArr [''15551230000'']),
                (''from-number'', JStr ''15559990000'')])]"
    by (simp add: example_token_def init_def send_message_payload_def)
  show ?thesis
    using same target by (rule conjI)
qed

subsection \<open>The request of send\_message: destination and path\<close>

text \<open>
  Claim C4: for every call of \<open>send_message\<close>, if \<open>destination\<close> is a single string
  \<open>s\<close>, the \<open>destination\<close> field of the request body is the one-element array \<open>[s]\<close>;
  if it is a sequence of strings, the field is the array of the same elements in the same
  order. The statement is about every POST that the call makes.
\<close>

theorem send_message_destination:
  "(Http (Post url headers payload)
      \<in> set (calls (send_message w self message_type message (Single s) from_number
                      messagesession data mime_type size'))
      \<longrightarrow> map_of payload ''destination'' = Some (JArr [s]))
   \<and> (Http (Post url headers payload)
      \<in> set (calls (send_message w self message_type message (Many xs) from_number
                      messagesession data mime_type size'))
      \<longrightarrow> map_of payload ''destination'' = Some (JArr xs))"
  by (auto dest!: send_message_post simp: send_message_payload_def)

text \<open>One recipient, and three recipients of which the first and the last are equal.\<close>

theorem send_message_destination_witness:
  "(\<exists>url headers payload.
      calls (send_message (responding ok_response) (init None) ''sms'' ''hi''
        (Single ''15551230000'') ''15559990000'' None None None None)
        = [CheckTokenExpiry, Http (Post url headers payload)]
      \<and> map_of payload ''destination'' = Some (JArr [''15551230000'']))
   \<and> (\<exists>url headers payload.
      calls (send_message (responding ok_response) (init None) ''sms'' ''hi''
        (Many [''15551230000'', ''15551230001'', ''15551230000'']) ''15559990000''
        None None None None)
        = [CheckTokenExpiry, Http (Post url headers payload)]
      \<and> map_of payload ''destination''
          = Some (JArr [''15551230000'', ''15551230001'', ''15551230000'']))"
proof -
  let ?one = "send_message (responding ok_response) (init None) ''sms'' ''hi''
        (Single ''15551230000'') ''15559990000'' None None None None"
  let ?three = "send_message (responding ok_response) (init None) ''sms'' ''hi''
        (Many [''15551230000'', ''15551230001'', ''15551230000'']) ''15559990000''
        None None None None"
  obtain u1 h1 p1 where c1: "calls ?one = [CheckTokenExpiry, Http (Post u1 h1 p1)]"
    by (simp add: example_defs send_defs)
  obtain u2 h2 p2 where c2: "calls ?three = [CheckTokenExpiry, Http (Post u2 h2 p2)]"
    by (simp add: example_defs send_defs)
  have m1: "Http (Post u1 h1 p1) \<in> set (calls ?one)"
    unfolding c1 by simp
  have m2: "Http (Post u2 h2 p2) \<in> set (calls ?three)"
    unfolding c2 by simp
  have d1: "map_of p1 ''destination'' = Some (JArr [''15551230000''])"
    using send_message_destination [of u1 h1 p1 "responding ok_response" "init None" "''sms''"
        "''hi''" "''15551230000''" "''15559990000''" None None None None] m1
    by blast
  have d2: "map_of p2 ''destination''
      = Some (JArr [''15551230000'', ''15551230001'', ''15551230000''])"
    using send_message_destination [of u2 h2 p2 "responding ok_response" "init None" "''sms''"
        "''hi''" _ "''15559990000''" None None None None
        "[''15551230000'', ''15551230001'', ''15551230000'']"] m2
    by blast
  show ?thesis
    using c1 d1 c2 d2 by blast
qed



subsection \<open>The request of get\_messages: path\<close>

text \<open>
  Claim C6: for every call of \<open>get_messages\<close> the path is chosen by a three-way branch,
  the first match winning. With a session identifier (the test \<open>if messagesession:\<close>
  holds: a non-empty string) the target is
  \<open>.../domains/{domain}/users/{user or "~"}/messagesessions/{session_id}/messages\<close>; with
  none but a user (a non-empty string) it is
  \<open>.../domains/{domain}/users/{user}/messagesessions\<close>; otherwise it is
  \<open>.../domains/{domain}/messagesessions\<close>. The parameter \<open>domain\<close> defaults to \<open>~\<close>.
\<close>

theorem get_messages_path:
  assumes "Http (Get url headers params)
      \<in> set (calls (get_messages w self messagesession domain' user' limit))"
    and "check_token_expiry w = Inr tok"
  shows "(\<forall>s. messagesession = Some s \<and> s \<noteq> [] \<longrightarrow>
            url = format_opt (map_of tok ''api_url'') @ ''/ns-api/v2/domains/'' @ domain'
                  @ ''/users/''
                  @ (case user' of Some u \<Rightarrow> if u \<noteq> [] then u else ''~'' | None \<Rightarrow> ''~'')
                  @ ''/messagesessions/'' @ s @ ''/messages'')
         \<and> (\<forall>u. \<not> truthy_str messagesession \<and> user' = Some u \<and> u \<noteq> [] \<longrightarrow>
            url = format_opt (map_of tok ''api_url'') @ ''/ns-api/v2/domains/'' @ domain'
                  @ ''/users/'' @ u @ ''/messagesessions'')
         \<and> (\<not> truthy_str messagesession \<and> \<not> truthy_str user' \<longrightarrow>
            url = format_opt (map_of tok ''api_url'') @ ''/ns-api/v2/domains/'' @ domain'
                  @ ''/messagesessions'')"
  using get_messages_get [OF assms(1)] assms(2)
  by (cases messagesession; cases user') (auto simp: get_messages_url_def)

text \<open>The three examples of the specification: no arguments; \<open>user="bob"\<close>; and
  \<open>session_id="x"*40, user="bob", domain="acme"\<close>.\<close>

theorem get_messages_path_witness:
  "calls (get_messages (responding ok_response) (init None) None get_messages_default_domain
      None None)
     = [CheckTokenExpiry,
        Http (Get ''https://api.example.com/ns-api/v2/domains/~/messagesessions''
               [(''Authorization'', ''Bearer T0K3N'')] [])]
   \<and> calls (get_messages (responding ok_response) (init None) None get_messages_default_domain
      (Some ''bob'') None)
     = [CheckTokenExpiry,
        Http (Get ''https://api.example.com/ns-api/v2/domains/~/users/bob/messagesessions''
               [(''Authorization'', ''Bearer T0K3N'')] [])]
   \<and> calls (get_messages (responding ok_response) (init None) (Some (replicate 40 CHR ''x''))
      ''acme'' (Some ''bob'') None)
     = [CheckTokenExpiry,
        Http (Get ''https://api.example.com/ns-api/v2/domains/acme/users/bob/messagesessions/xxxxxxxxxxxxxxxxxxxxxxxxxxxxxxxxxxxxxxxx/messages''
               [(''Authorization'', ''Bearer T0K3N'')] [])]"
proof -
  let ?h = "[(''Authorization'', ''Bearer T0K3N'')]"
  let ?w = "responding ok_response"
  have auth: "check_token_expiry ?w = Inr example_token"
    by (simp add: responding_def)
  obtain u1 where c1: "calls (get_messages ?w (init None) None get_messages_default_domain
      None None) = [CheckTokenExpiry, Http (Get u1 ?h [])]"
    by (simp add: example_defs get_defs)
  obtain u2 where c2: "calls (get_messages ?w (init None) None get_messages_default_domain
      (Some ''bob'') None) = [CheckTokenExpiry, Http (Get u2 ?h [])]"
    by (simp add: example_defs get_defs)
  obtain u3 where c3: "calls (get_messages ?w (init None) (Some (replicate 40 CHR ''x''))
      ''acme'' (Some ''bob'') None) = [CheckTokenExpiry, Http (Get u3 ?h [])]"
    by (simp add: example_defs get_defs)
  have "Http (Get u1 ?h []) \<in> set (calls (get_messages ?w (init None) None
      get_messages_default_domain None None))"
    unfolding c1 by simp
  from get_messages_path [OF this auth]
  have e1: "u1 = ''https://api.example.com/ns-api/v2/domains/~/messagesessions''"
    by (simp add: example_defs)
  have "Http (Get u2 ?h []) \<in> set (calls (get_messages ?w (init None) None
      get_messages_default_domain (Some ''bob'') None))"
    unfolding c2 by simp
  from get_messages_path [OF this auth]
  have e2: "u2 = ''https://api.example.com/ns-api/v2/domains/~/users/bob/messagesessions''"
    by (simp add: example_defs)
  have "Http (Get u3 ?h []) \<in> set (calls (get_messages ?w (init None)
      (Some (replicate 40 CHR ''x'')) ''acme'' (Some ''bob'') None))"
    unfolding c3 by simp
  from get_messages_path [OF this auth]
  have e3: "u3 = ''https://api.example.com/ns-api/v2/domains/acme/users/bob/messagesessions/xxxxxxxxxxxxxxxxxxxxxxxxxxxxxxxxxxxxxxxx/messages''"
    by (simp add: example_defs replicate_40_x)
  show ?thesis
    using c1 c2 c3 e1 e2 e3 by simp
qed

subsection \<open>Optional fields\<close>

text \<open>
  Claim C7 says that \<open>data\<close>, \<open>mime_type\<close>, \<open>size\<close> (body of \<open>send_message\<close>) and \<open>limit\<close>
  (query of \<open>get_messages\<close>) are absent from the request when not supplied and present,
  \<open>size\<close> and \<open>limit\<close> as strings, when supplied. It fails when a supplied value is
  falsy: with \<open>size=0\<close> the body has no \<open>size\<close> key, and with \<open>limit=0\<close> the query is
  empty, because the guards are \<open>if size:\<close> and \<open>if limit:\<close>.
\<close>

theorem optional_fields_zero_counterexample:
  "calls (send_message (responding ok_response) (init None) ''mms'' ''hi''
      (Single ''15551230000'') ''15559990000'' None None None (Some 0))
     = [CheckTokenExpiry,
        Http (Post ''https://api.example.com/ns-api/v2/domains/~/users/~/messages''
               [(''Authorization'', ''Bearer T0K3N'')]
               [(''type'', JStr ''mms''), (''message'', JStr ''hi''),
                (''destination'', JArr [''15551230000'']),
                (''from-number'', JStr ''15559990000'')])]
   \<and> calls (get_messages (responding ok_response) (init None) None get_messages_default_domain
      None (Some 0))
     = [CheckTokenExpiry,
        Http (Get ''https://api.example.com/ns-api/v2/domains/~/messagesessions''
               [(''Authorization'', ''Bearer T0K3N'')] [])]"
  by (simp add: example_defs send_defs get_defs)

text \<open>
  Claim C7, amended: in every request that \<open>send_message\<close> posts, each of the keys
  \<open>data\<close>, \<open>mime-type\<close> and \<open>size\<close> is absent when the argument is not supplied or is
  falsy (the empty string, zero), and otherwise present, \<open>data\<close> and \<open>mime-type\<close> with
  the argument and \<open>size\<close> with its decimal string; in every request that
  \<open>get_messages\<close> issues, the query has the key \<open>limit\<close>, with the decimal string, exactly
  when \<open>limit\<close> is supplied and not zero.
\<close>

theorem optional_fields:
  "(Http (Post url headers payload)
      \<in> set (calls (send_message w self message_type message dest from_number messagesession
                      data mime_type size'))
    \<longrightarrow> map_of payload ''data''
          = (case data of None \<Rightarrow> None | Some d \<Rightarrow> if d = [] then None else Some (JStr d))
        \<and> map_of payload ''mime-type''
          = (case mime_type of None \<Rightarrow> None
             | Some m \<Rightarrow> if m = [] then None else Some (JStr m))
        \<and> map_of payload ''size''
          = (case size' of None \<Rightarrow> None
             | Some n \<Rightarrow> if n = 0 then None else Some (JStr (str_int n))))
   \<and> (Http (Get url' headers' params)
      \<in> set (calls (get_messages w' self' messagesession' domain' user' limit))
    \<longrightarrow> map_of params ''limit''
          = (case limit of None \<Rightarrow> None
             | Some n \<Rightarrow> if n = 0 then None else Some (str_int n)))"
proof (intro conjI impI)
  assume "Http (Post url headers payload)
      \<in> set (calls (send_message w self message_type message dest from_number messagesession
                      data mime_type size'))"
  then have p: "payload = send_message_payload message_type message dest from_number data
      mime_type size'"
    by (auto dest: send_message_post)
  show "map_of payload ''data''
          = (case data of None \<Rightarrow> None | Some d \<Rightarrow> if d = [] then None else Some (JStr d))"
    unfolding p by (simp add: send_message_payload_def split: option.splits)
  show "map_of payload ''mime-type''
          = (case mime_type of None \<Rightarrow> None
             | Some m \<Rightarrow> if m = [] then None else Some (JStr m))"
    unfolding p by (simp add: send_message_payload_def split: option.splits)
  show "map_of payload ''size''
          = (case size' of None \<Rightarrow> None
             | Some n \<Rightarrow> if n = 0 then None else Some (JStr (str_int n)))"
    unfolding p by (simp add: send_message_payload_def split: option.splits)
next
  assume "Http (Get url' headers' params)
      \<in> set (calls (get_messages w' self' messagesession' domain' user' limit))"
  then have "params = get_messages_params limit"
    by (auto dest: get_messages_get)
  then show "map_of params ''limit''
          = (case limit of None \<Rightarrow> None
             | Some n \<Rightarrow> if n = 0 then None else Some (str_int n))"
    by (simp add: get_messages_params_def split: option.splits)
qed

text \<open>A media message with all three fields, and a listing limited to 50 items.\<close>

theorem optional_fields_witness:
  "(\<exists>url headers payload.
      calls (send_message (responding ok_response) (init None) ''mms'' ''hi''
        (Single ''15551230000'') ''15559990000'' None (Some ''QUJD'') (Some ''image/png'')
        (Some 1024))
        = [CheckTokenExpiry, Http (Post url headers payload)]
      \<and> map_of payload ''data'' = Some (JStr ''QUJD'')
      \<and> map_of payload ''mime-type'' = Some (JStr ''image/png'')
      \<and> map_of payload ''size'' = Some (JStr ''1024''))
   \<and> (\<exists>url headers params.
      calls (get_messages (responding ok_response) (init None) None
        get_messages_default_domain None (Some 50))
        = [CheckTokenExpiry, Http (Get url headers params)]
      \<and> map_of params ''limit'' = Some ''50'')"
proof -
  let ?send = "send_message (responding ok_response) (init None) ''mms'' ''hi''
        (Single ''15551230000'') ''15559990000'' None (Some ''QUJD'') (Some ''image/png'')
        (Some 1024)"
  let ?get = "get_messages (responding ok_response) (init None) None
        get_messages_default_domain None (Some 50)"
  obtain u h p where c: "calls ?send = [CheckTokenExpiry, Http (Post u h p)]"
    by (simp add: example_defs send_defs)
  obtain u' h' q where c': "calls ?get = [CheckTokenExpiry, Http (Get u' h' q)]"
    by (simp add: example_defs get_defs)
  have m: "Http (Post u h p) \<in> set (calls ?send)"
    unfolding c by simp
  have m': "Http (Get u' h' q) \<in> set (calls ?get)"
    unfolding c' by simp
  note t = optional_fields [of u h p "responding ok_response" "init None" "''mms''" "''hi''"
      "Single ''15551230000''" "''15559990000''" None "Some ''QUJD''" "Some ''image/png''"
      "Some 1024" u' h' q "responding ok_response" "init None" None
      get_messages_default_domain None "Some 50"]
  have s: "str_int 1024 = ''1024''" "str_int 50 = ''50''"
    by (simp_all add: str_int_def str_nat.simps digit_char_def)
  have body: "map_of p ''data'' = Some (JStr ''QUJD'')
      \<and> map_of p ''mime-type'' = Some (JStr ''image/png'')
      \<and> map_of p ''size'' = Some (JStr ''1024'')"
    using conjunct1 [OF t] m s by simp
  have query: "map_of q ''limit'' = Some ''50''"
    using conjunct2 [OF t] m' s by simp
  show ?thesis
    using c c' body query by blast
qed

subsection \<open>Failures: a status other than 200\<close>

text \<open>What \<open>send_message\<close> raises on a status other than 200, in general: the plain
  \<open>Exception\<close> of line 110, whose message ends with the body text and says nothing of the
  status.\<close>

lemma send_message_non_200:
  assumes "check_token_expiry w = Inr tok"
    and "map_of tok ''access_token'' = Some t"
    and "\<not> truthy_str messagesession \<or> (\<exists>s. messagesession = Some s \<and> re_match_session s)"
    and "\<And>req. http w req = Inr r"
    and "status r \<noteq> 200"
    and "text_result r = Inr body"
  shows "outcome (send_message w self message_type message dest from_number messagesession
            data mime_type size')
           = Inl (Exception (''Failed to send message: '' @ body) None)"
  using assms
  by (cases messagesession)
    (auto simp: send_message_def send_message_url_def bearer_headers_def
      send_message_response_def outcome_def Let_def)

text \<open>
  Claim C2 says that for both operations a status other than 200 makes the call fail
  with an error that carries the status code and the raw body text, and that a 403 with
  the body \<open>forbidden\<close> gives an error carrying 403 and \<open>forbidden\<close>. The code at that
  input: \<open>send_message\<close> raises an exception whose message has the body text but not the
  status; \<open>get_messages\<close> builds the exception with the status and the body, and its own
  last \<open>except\<close> clause replaces it by \<open>An unexpected error occurred.\<close>
\<close>

theorem non_200_status_at_403:
  "outcome (send_message (responding forbidden_response) (init None) ''sms'' ''hi''
      (Single ''15551230000'') ''15559990000'' None None None None)
     = Inl (Exception ''Failed to send message: forbidden'' None)
   \<and> outcome (get_messages (responding forbidden_response) (init None) None
      get_messages_default_domain None None)
     = Inl (Exception ''An unexpected error occurred.''
          (Some (Exception ''Failed to retrieve messages. Status: 403, Error: forbidden'' None)))"
  by (simp add: example_defs send_defs get_defs str_int_def str_nat.simps digit_char_def)

text \<open>
  Claim C9: in \<open>get_messages\<close> the exception raised by the branch for a status other than
  200, inside the \<open>try\<close> block, is caught by the last \<open>except\<close> clause and raised again as
  a new plain exception with the fixed message \<open>An unexpected error occurred.\<close>; the
  exception with the status and the body reaches the caller only as its cause.
\<close>

theorem get_messages_status_error_rewrapped:
  assumes auth: "check_token_expiry w = Inr tok"
    and token: "map_of tok ''access_token'' = Some t"
    and resp: "\<And>req. http w req = Inr r"
    and st: "status r \<noteq> 200"
    and body: "text_result r = Inr body"
  shows "outcome (get_messages w self messagesession domain' user' limit)
           = Inl (Exception ''An unexpected error occurred.''
                (Some (Exception (''Failed to retrieve messages. Status: '' @ str_int (status r)
                                  @ '', Error: '' @ body) None)))"
  using assms
  by (simp add: get_messages_def get_messages_try_def bearer_headers_def
      get_messages_response_def except_clauses_def outcome_def Let_def)

theorem get_messages_status_error_rewrapped_witness:
  "outcome (get_messages (responding forbidden_response) (init None) None
      get_messages_default_domain None None)
     = Inl (Exception ''An unexpected error occurred.''
          (Some (Exception ''Failed to retrieve messages. Status: 403, Error: forbidden'' None)))"
proof -
  have auth: "check_token_expiry (responding forbidden_response) = Inr example_token"
    by (simp add: responding_def)
  have token: "map_of example_token ''access_token'' = Some ''T0K3N''"
    by (simp add: example_token_def)
  have resp: "\<And>req. http (responding forbidden_response) req = Inr forbidden_response"
    by (simp add: responding_def)
  have st: "status forbidden_response \<noteq> 200"
    by (simp add: forbidden_response_def)
  have body: "text_result forbidden_response = Inr ''forbidden''"
    by (simp add: forbidden_response_def)
  have s: "str_int (status forbidden_response) = ''403''"
    by (simp add: forbidden_response_def str_int_def str_nat.simps digit_char_def)
  show ?thesis
    using get_messages_status_error_rewrapped [OF auth token resp st body] s
    by simp
qed

subsection \<open>Failures: the transport raises\<close>

text \<open>\<open>send_message\<close> has no handler: what the transport raises reaches the caller as it
  is.\<close>

lemma send_message_transport_failure:
  assumes "check_token_expiry w = Inr tok"
    and "map_of tok ''access_token'' = Some t"
    and "\<not> truthy_str messagesession \<or> (\<exists>s. messagesession = Some s \<and> re_match_session s)"
    and "\<And>req. http w req = Inl e"
  shows "outcome (send_message w self message_type message dest from_number messagesession
            data mime_type size') = Inl e"
  using assms
  by (cases messagesession)
    (auto simp: send_message_def send_message_url_def bearer_headers_def outcome_def Let_def)

text \<open>
  Claim C3 says that for both operations every transport-level failure (connection
  error, connection reset, timeout) makes the call fail with a network error that wraps
  the transport exception as its cause. In \<open>send_message\<close> a connection reset reaches the
  caller unwrapped. In \<open>get_messages\<close> a failure that is not an \<open>aiohttp.ClientError\<close>,
  such as the \<open>asyncio.TimeoutError\<close> of an expired total timeout, is not matched by the
  first \<open>except\<close> clause and leaves as \<open>An unexpected error occurred.\<close>
\<close>

theorem transport_failure_counterexample:
  "outcome (send_message (failing (ClientError ''Connection reset by peer'')) (init None)
      ''sms'' ''hi'' (Single ''15551230000'') ''15559990000'' None None None None)
     = Inl (ClientError ''Connection reset by peer'')
   \<and> \<not> is_ClientError (OtherError ''TimeoutError'')
   \<and> outcome (get_messages (failing (OtherError ''TimeoutError'')) (init None) None
      get_messages_default_domain None None)
     = Inl (Exception ''An unexpected error occurred.'' (Some (OtherError ''TimeoutError'')))"
  by (simp add: example_defs send_defs get_defs)

text \<open>
  Claim C3, amended: in \<open>get_messages\<close>, every exception \<open>e\<close> that the transport raises
  during the request makes the call fail with a new plain exception whose cause is \<open>e\<close>;
  its message is \<open>Network error occurred while retrieving messages.\<close> when \<open>e\<close> is an
  \<open>aiohttp.ClientError\<close>, and \<open>An unexpected error occurred.\<close> otherwise.
\<close>

theorem get_messages_transport_failure:
  assumes auth: "check_token_expiry w = Inr tok"
    and token: "map_of tok ''access_token'' = Some t"
    and fail: "\<And>req. http w req = Inl e"
  shows "outcome (get_messages w self messagesession domain' user' limit)
           = Inl (Exception (if is_ClientError e
                             then ''Network error occurred while retrieving messages.''
                             else ''An unexpected error occurred.'') (Some e))"
  using assms
  by (simp add: get_messages_def get_messages_try_def bearer_headers_def except_clauses_def
      outcome_def Let_def)

text \<open>The connection reset of the specification.\<close>

theorem get_messages_transport_failure_witness:
  "outcome (get_messages (failing (ClientError ''Connection reset by peer'')) (init None)
      None get_messages_default_domain None None)
     = Inl (Exception ''Network error occurred while retrieving messages.''
          (Some (ClientError ''Connection reset by peer'')))"
proof -
  let ?e = "ClientError ''Connection reset by peer''"
  have auth: "check_token_expiry (failing ?e) = Inr example_token"
    by (simp add: failing_def)
  have token: "map_of example_token ''access_token'' = Some ''T0K3N''"
    by (simp add: example_token_def)
  have fail: "\<And>req. http (failing ?e) req = Inl ?e"
    by (simp add: failing_def)
  show ?thesis
    using get_messages_transport_failure [OF auth token fail]
    by simp
qed

subsection \<open>The session identifier in get\_messages\<close>

text \<open>
  Claim C8 says that every operation that takes a session identifier, \<open>get_messages\<close>
  as well as \<open>send_message\<close>, rejects a value that does not match the pattern before any
  network call. \<open>get_messages\<close> does not: under the comment \<open>Validate messagesession if
  provided\<close> (line 132) there is no test of the pattern, and with \<open>bad-id\<close> the GET is
  issued with that value in its path and the call returns the server's answer.
\<close>

theorem get_messages_unvalidated_session:
  "\<not> re_match_session ''bad-id''
   \<and> get_messages (responding ok_response) (init None) (Some ''bad-id'')
       get_messages_default_domain None None
     = (Inr ''{}'',
        \<lparr> auth_data = Some example_token, base_url = Some ''https://api.example.com'',
          domain = ''~'', user = ''~'' \<rparr>,
        [CheckTokenExpiry,
         Http (Get ''https://api.example.com/ns-api/v2/domains/~/users/~/messagesessions/bad-id/messages''
                [(''Authorization'', ''Bearer T0K3N'')] [])])"
  by (simp add: example_defs get_defs re_match_session_def)

end
